theory Spec2Isabelle
  imports Main
begin

section \<open>The CombineNode class of combine-node (src/index.js)\<close>

text \<open>
  The class \<open>CombineNode\<close> is a tree node of the BEM naming convention with namespaced
  properties, children, mixins and directives, and a few computations that render the
  node to the pieces of an HTML tag. This theory embeds the class method by method and
  proves the properties its specification states.

  Conventions of the embedding:
  \<^item> a JavaScript object used as a dictionary is an association list in insertion
    order; its keys are ordinary own keys (the members that every object inherits from
    \<open>Object.prototype\<close>, such as \<open>constructor\<close> or \<open>hasOwnProperty\<close>, are not
    used as namespace or property names);
  \<^item> property values are strings, as the documentation of \<open>getProp\<close> types them; a
    read of a missing key gives \<open>Undefined\<close>;
  \<^item> a node is referred to by its address; the heap gives the node at every address
    (a JavaScript reference never dangles);
  \<^item> a \<open>TypeError\<close> thrown by the runtime is the left summand of the result;
  \<^item> \<open>Case.kebab\<close> belongs to the library \<open>case\<close>, which is not part of the source:
    it is the parameter \<open>kebab\<close> of every function that calls it.
\<close>

subsection \<open>JavaScript values, strings and objects\<close>

datatype error = TypeError

datatype jsval = Undefined | Str string

text \<open>The conversion of a value inside a template literal.\<close>

fun toString :: "jsval \<Rightarrow> string" where
  "toString Undefined = ''undefined''"
| "toString (Str s) = s"

text \<open>\<open>String.prototype.toLowerCase\<close>, on the ASCII letters; other characters are kept.\<close>

definition toLowerCase_char :: "char \<Rightarrow> char" where
  "toLowerCase_char c =
     (if (65::nat) \<le> of_char c \<and> of_char c \<le> (90::nat)
      then (case c of Char b0 b1 b2 b3 b4 b5 b6 b7 \<Rightarrow> Char b0 b1 b2 b3 b4 True b6 b7)
      else c)"

definition toLowerCase :: "string \<Rightarrow> string" where
  "toLowerCase s = map toLowerCase_char s"

text \<open>\<open>Array.prototype.join\<close> on an array of strings.\<close>

fun join :: "string \<Rightarrow> string list \<Rightarrow> string" where
  "join sep [] = []"
| "join sep [x] = x"
| "join sep (x # y # ys) = x @ sep @ join sep (y # ys)"

type_synonym 'v obj = "(string \<times> 'v) list"

text \<open>\<open>obj.hasOwnProperty(k)\<close>.\<close>

definition hasOwnProperty :: "'v obj \<Rightarrow> string \<Rightarrow> bool" where
  "hasOwnProperty ob k = (k \<in> set (map fst ob))"

text \<open>\<open>obj[k]\<close> as an option: \<open>None\<close> is JavaScript's \<open>undefined\<close>.\<close>

definition js_get :: "'v obj \<Rightarrow> string \<Rightarrow> 'v option" where
  "js_get ob k = map_of ob k"

text \<open>
  \<open>obj[k] = v\<close>: an existing key keeps its place and takes the new value, a new key
  goes to the end.
\<close>

fun js_set :: "string \<Rightarrow> 'v \<Rightarrow> 'v obj \<Rightarrow> 'v obj" where
  "js_set k v [] = [(k, v)]"
| "js_set k v ((k', v') # ps) =
     (if k' = k then (k, v) # ps else (k', v') # js_set k v ps)"

text \<open>
  The order of the own keys of an ordinary object: the keys that are array indices
  (canonical decimal numerals below \<open>2^32 - 1\<close>) in ascending numeric order, then the
  other keys in insertion order.
\<close>

definition is_digit :: "char \<Rightarrow> bool" where
  "is_digit c = ((48::nat) \<le> of_char c \<and> of_char c \<le> (57::nat))"

definition digits_value :: "string \<Rightarrow> nat" where
  "digits_value s = foldl (\<lambda>n c. 10 * n + (of_char c - 48)) 0 s"

definition is_array_index :: "string \<Rightarrow> bool" where
  "is_array_index s =
     (s \<noteq> [] \<and> list_all is_digit s \<and> (s = ''0'' \<or> \<not> (of_char (hd s) = (48::nat)))
      \<and> digits_value s < 2 ^ 32 - 1)"

definition own_entries :: "'v obj \<Rightarrow> (string \<times> 'v) list" where
  "own_entries ob =
     sort_key (\<lambda>e. digits_value (fst e)) (filter (\<lambda>e. is_array_index (fst e)) ob)
     @ filter (\<lambda>e. \<not> is_array_index (fst e)) ob"

definition Object_keys :: "'v obj \<Rightarrow> string list" where
  "Object_keys ob = map fst (own_entries ob)"

text \<open>
  \<open>Object.assign(target, source)\<close>: every own entry of the source is written to the
  target, in the order of the source's own keys; an \<open>undefined\<close> source is skipped.
\<close>

fun assign_entries :: "'v obj \<Rightarrow> (string \<times> 'v) list \<Rightarrow> 'v obj" where
  "assign_entries target [] = target"
| "assign_entries target ((k, v) # es) = assign_entries (js_set k v target) es"

definition Object_assign :: "'v obj \<Rightarrow> 'v obj option \<Rightarrow> 'v obj" where
  "Object_assign target source =
     (case source of None \<Rightarrow> target | Some s \<Rightarrow> assign_entries target (own_entries s))"

subsection \<open>The node and its heap\<close>

type_synonym addr = nat

type_synonym directive = nat

text \<open>
  The fields of the class. \<open>props\<close>, \<open>content\<close>, \<open>mixins\<close> and \<open>directives\<close> are the
  private fields \<open>_props\<close>, \<open>_content\<close>, \<open>_mixins\<close> and \<open>_directives\<close>.
\<close>

record node =
  name :: string
  blockName :: string
  elementName :: string
  isBlock :: bool
  isElement :: bool
  props :: "string obj obj"
  content :: "addr list"
  mixins :: "addr list"
  directives :: "directive obj"

type_synonym heap = "addr \<Rightarrow> node"

text \<open>
  The constructor. \<open>name[0]\<close> of the empty string is \<open>undefined\<close>, and calling
  \<open>toLowerCase\<close> on it throws.
\<close>

definition CombineNode :: "string \<Rightarrow> error + node" where
  "CombineNode nm =
     (case nm of
        [] \<Rightarrow> Inl TypeError
      | c # _ \<Rightarrow>
          (let isCapitalizeFirstLetter = (toLowerCase [c] \<noteq> [c]) in
           Inr \<lparr> name = nm,
                 blockName = (if isCapitalizeFirstLetter then nm else ''''),
                 elementName = (if \<not> isCapitalizeFirstLetter then nm else ''''),
                 isBlock = isCapitalizeFirstLetter,
                 isElement = (\<not> isCapitalizeFirstLetter),
                 props = [],
                 content = [],
                 mixins = [],
                 directives = [] \<rparr>))"

subsection \<open>Children, mixins and directives\<close>

definition addChild :: "addr \<Rightarrow> node \<Rightarrow> node" where
  "addChild child n = n\<lparr>content := content n @ [child]\<rparr>"

definition setChilds :: "addr list \<Rightarrow> node \<Rightarrow> node" where
  "setChilds nodes n = n\<lparr>content := nodes\<rparr>"

definition getChilds :: "node \<Rightarrow> addr list" where
  "getChilds n = content n"

definition hasChilds :: "node \<Rightarrow> bool" where
  "hasChilds n = (length (content n) > 0)"

definition emptyChilds :: "node \<Rightarrow> bool" where
  "emptyChilds n = (length (content n) = 0)"

definition addMixin :: "addr \<Rightarrow> node \<Rightarrow> node" where
  "addMixin mixinNode n = n\<lparr>mixins := mixins n @ [mixinNode]\<rparr>"

definition getMixines :: "node \<Rightarrow> addr list" where
  "getMixines n = mixins n"

definition addDirective :: "string \<Rightarrow> directive \<Rightarrow> node \<Rightarrow> node" where
  "addDirective nm d n = n\<lparr>directives := js_set nm d (directives n)\<rparr>"

definition getDirective :: "node \<Rightarrow> string \<Rightarrow> directive option" where
  "getDirective n nm = js_get (directives n) nm"

definition hasDirective :: "node \<Rightarrow> string \<Rightarrow> bool" where
  "hasDirective n nm = hasOwnProperty (directives n) nm"

definition getDirectives :: "node \<Rightarrow> directive obj" where
  "getDirectives n = directives n"

subsection \<open>Properties\<close>

definition getPropNS :: "node \<Rightarrow> string \<Rightarrow> string obj option" where
  "getPropNS n ns = js_get (props n) ns"

definition hasPropNS :: "node \<Rightarrow> string \<Rightarrow> bool" where
  "hasPropNS n ns = hasOwnProperty (props n) ns"

text \<open>
  \<open>this.getPropNS(namespace)[name]\<close>: reading a member of \<open>undefined\<close> throws; a
  missing name in an existing namespace reads as \<open>undefined\<close>.
\<close>

definition getProp :: "node \<Rightarrow> string \<Rightarrow> string \<Rightarrow> error + jsval" where
  "getProp n ns nm =
     (case getPropNS n ns of
        None \<Rightarrow> Inl TypeError
      | Some space \<Rightarrow> Inr (case js_get space nm of None \<Rightarrow> Undefined | Some v \<Rightarrow> Str v))"

text \<open>The conjunction is short-circuit: the namespace is read only when it exists.\<close>

definition hasProp :: "node \<Rightarrow> string \<Rightarrow> string \<Rightarrow> bool" where
  "hasProp n ns nm =
     (if hasPropNS n ns
      then (case getPropNS n ns of None \<Rightarrow> False | Some space \<Rightarrow> hasOwnProperty space nm)
      else False)"

text \<open>
  \<open>setProp\<close> creates the namespace when it is missing and then writes the name into
  it. The namespace read for the write is the one just ensured, so the read never gives
  \<open>undefined\<close> (lemma \<open>setProp_space\<close>); the write keeps the namespace at its place in
  the store.
\<close>

definition setProp :: "string \<Rightarrow> string \<Rightarrow> string \<Rightarrow> node \<Rightarrow> node" where
  "setProp ns nm v n =
     (let p1 = (if \<not> hasPropNS n ns then js_set ns [] (props n) else props n);
          space = (case js_get p1 ns of None \<Rightarrow> [] | Some s \<Rightarrow> s)
      in n\<lparr>props := js_set ns (js_set nm v space) p1\<rparr>)"

subsection \<open>Rendering\<close>

definition getAllMixedNodes :: "heap \<Rightarrow> addr \<Rightarrow> addr list" where
  "getAllMixedNodes h this = [this] @ getMixines (h this)"

text \<open>The loop of \<open>getHtmlTag\<close>, with the running value of \<open>tag\<close>.\<close>

fun getHtmlTag_loop :: "heap \<Rightarrow> jsval \<Rightarrow> addr list \<Rightarrow> error + jsval" where
  "getHtmlTag_loop h tag [] = Inr tag"
| "getHtmlTag_loop h tag (nd # nds) =
     (if hasProp (h nd) ''html'' ''tag''
      then (case getProp (h nd) ''html'' ''tag'' of
              Inl e \<Rightarrow> Inl e
            | Inr v \<Rightarrow> getHtmlTag_loop h v nds)
      else getHtmlTag_loop h tag nds)"

definition getHtmlTag :: "heap \<Rightarrow> addr \<Rightarrow> error + jsval" where
  "getHtmlTag h this = getHtmlTag_loop h (Str ''div'') (getAllMixedNodes h this)"

text \<open>The first loop of \<open>getCssMixedRules\<close>, with the running value of \<open>mixedRules\<close>.\<close>

fun mixedRules_loop :: "heap \<Rightarrow> string obj \<Rightarrow> addr list \<Rightarrow> string obj" where
  "mixedRules_loop h mixedRules [] = mixedRules"
| "mixedRules_loop h mixedRules (nd # nds) =
     mixedRules_loop h
       (if hasPropNS (h nd) ''css''
        then Object_assign mixedRules (getPropNS (h nd) ''css'')
        else mixedRules) nds"

definition mixedRules_of :: "heap \<Rightarrow> addr \<Rightarrow> string obj" where
  "mixedRules_of h this = mixedRules_loop h [] (getAllMixedNodes h this)"

text \<open>The second loop: the array \<open>result\<close> before it is joined.\<close>

definition cssRule_strings :: "(string \<Rightarrow> string) \<Rightarrow> string obj \<Rightarrow> string list" where
  "cssRule_strings kebab mixedRules =
     map (\<lambda>cssRule. kebab cssRule @ '':''
            @ toString (case js_get mixedRules cssRule of None \<Rightarrow> Undefined | Some v \<Rightarrow> Str v))
         (Object_keys mixedRules)"

definition getCssMixedRules :: "(string \<Rightarrow> string) \<Rightarrow> heap \<Rightarrow> addr \<Rightarrow> string" where
  "getCssMixedRules kebab h this = join '';'' (cssRule_strings kebab (mixedRules_of h this))"

definition getHtmlClass :: "(string \<Rightarrow> string) \<Rightarrow> node \<Rightarrow> string" where
  "getHtmlClass kebab n =
     kebab (blockName n) @ (if isElement n then ''__'' @ kebab (elementName n) else '''')"

definition getHtmlMixedClass :: "(string \<Rightarrow> string) \<Rightarrow> heap \<Rightarrow> addr \<Rightarrow> string" where
  "getHtmlMixedClass kebab h this =
     join '' '' (map (\<lambda>nd. getHtmlClass kebab (h nd)) (getAllMixedNodes h this))"

text \<open>
  \<open>_getAttributesString\<close>. The object \<open>attrs\<close> is built with the keys \<open>class\<close> and
  \<open>styles\<close>, as the source writes them.
\<close>

definition getAttributesString :: "(string \<Rightarrow> string) \<Rightarrow> heap \<Rightarrow> addr \<Rightarrow> string" where
  "getAttributesString kebab h this =
     (let attrs = [(''class'', getHtmlMixedClass kebab h this),
                   (''styles'', getCssMixedRules kebab h this)]
      in join '' ''
           (map (\<lambda>nm. nm @ ''=\"'' @ (case js_get attrs nm of None \<Rightarrow> [] | Some v \<Rightarrow> v) @ ''\"'')
              (filter (\<lambda>nm. (case js_get attrs nm of None \<Rightarrow> False | Some v \<Rightarrow> length v > 0))
                 (Object_keys attrs))))"

definition getHtmlTagStart :: "(string \<Rightarrow> string) \<Rightarrow> heap \<Rightarrow> addr \<Rightarrow> error + string" where
  "getHtmlTagStart kebab h this =
     (case getHtmlTag h this of
        Inl e \<Rightarrow> Inl e
      | Inr tag \<Rightarrow> Inr (''<'' @ toString tag @ '' '' @ getAttributesString kebab h this @ ''>''))"

definition getHtmlTagEnd :: "heap \<Rightarrow> addr \<Rightarrow> error + string" where
  "getHtmlTagEnd h this =
     (case getHtmlTag h this of
        Inl e \<Rightarrow> Inl e
      | Inr tag \<Rightarrow> Inr (''</'' @ toString tag @ ''>''))"

subsection \<open>Method calls on the heap\<close>

text \<open>
  A method call on the node at address \<open>this\<close> returns a value or throws, and leaves a
  heap. The mutators write the fields of \<open>this\<close> only.
\<close>

datatype node_method =
    AddChild addr
  | SetChilds "addr list"
  | GetChilds
  | HasChilds
  | EmptyChilds
  | AddMixin addr
  | GetMixines
  | AddDirective string directive
  | GetDirective string
  | HasDirective string
  | GetDirectives
  | GetPropNS string
  | HasPropNS string
  | GetProp string string
  | HasProp string string
  | SetProp string string string
  | GetAllMixedNodes
  | GetHtmlTag
  | GetCssMixedRules
  | GetHtmlClass
  | GetHtmlMixedClass
  | GetAttributesString
  | GetHtmlTagStart
  | GetHtmlTagEnd

datatype retval =
    RUndefined
  | RBool bool
  | RString string
  | RValue jsval
  | RNodes "addr list"
  | RSpace "string obj option"
  | RDirective "directive option"
  | RDirectives "directive obj"

fun call :: "(string \<Rightarrow> string) \<Rightarrow> heap \<Rightarrow> addr \<Rightarrow> node_method \<Rightarrow> (error + retval) \<times> heap" where
  "call kebab h this (AddChild c) = (Inr RUndefined, h(this := addChild c (h this)))"
| "call kebab h this (SetChilds cs) = (Inr RUndefined, h(this := setChilds cs (h this)))"
| "call kebab h this GetChilds = (Inr (RNodes (getChilds (h this))), h)"
| "call kebab h this HasChilds = (Inr (RBool (hasChilds (h this))), h)"
| "call kebab h this EmptyChilds = (Inr (RBool (emptyChilds (h this))), h)"
| "call kebab h this (AddMixin m) = (Inr RUndefined, h(this := addMixin m (h this)))"
| "call kebab h this GetMixines = (Inr (RNodes (getMixines (h this))), h)"
| "call kebab h this (AddDirective nm d) =
     (Inr RUndefined, h(this := addDirective nm d (h this)))"
| "call kebab h this (GetDirective nm) = (Inr (RDirective (getDirective (h this) nm)), h)"
| "call kebab h this (HasDirective nm) = (Inr (RBool (hasDirective (h this) nm)), h)"
| "call kebab h this GetDirectives = (Inr (RDirectives (getDirectives (h this))), h)"
| "call kebab h this (GetPropNS ns) = (Inr (RSpace (getPropNS (h this) ns)), h)"
| "call kebab h this (HasPropNS ns) = (Inr (RBool (hasPropNS (h this) ns)), h)"
| "call kebab h this (GetProp ns nm) = (map_sum id RValue (getProp (h this) ns nm), h)"
| "call kebab h this (HasProp ns nm) = (Inr (RBool (hasProp (h this) ns nm)), h)"
| "call kebab h this (SetProp ns nm v) = (Inr RUndefined, h(this := setProp ns nm v (h this)))"
| "call kebab h this GetAllMixedNodes = (Inr (RNodes (getAllMixedNodes h this)), h)"
| "call kebab h this GetHtmlTag = (map_sum id RValue (getHtmlTag h this), h)"
| "call kebab h this GetCssMixedRules = (Inr (RString (getCssMixedRules kebab h this)), h)"
| "call kebab h this GetHtmlClass = (Inr (RString (getHtmlClass kebab (h this))), h)"
| "call kebab h this GetHtmlMixedClass = (Inr (RString (getHtmlMixedClass kebab h this)), h)"
| "call kebab h this GetAttributesString =
     (Inr (RString (getAttributesString kebab h this)), h)"
| "call kebab h this GetHtmlTagStart = (map_sum id RString (getHtmlTagStart kebab h this), h)"
| "call kebab h this GetHtmlTagEnd = (map_sum id RString (getHtmlTagEnd h this), h)"

text \<open>
  A sequence of calls, each on a node of its own; a call that throws leaves the heap as
  it found it, whether or not the caller catches the error.
\<close>

fun calls :: "(string \<Rightarrow> string) \<Rightarrow> heap \<Rightarrow> (addr \<times> node_method) list \<Rightarrow> heap" where
  "calls kebab h [] = h"
| "calls kebab h ((this, m) # cs) = calls kebab (snd (call kebab h this m)) cs"

text \<open>What the constructor derives from the name.\<close>

definition classification :: "node \<Rightarrow> string \<times> string \<times> string \<times> bool \<times> bool" where
  "classification n = (name n, blockName n, elementName n, isBlock n, isElement n)"

text \<open>
  The keys of a JavaScript object are distinct. A node is well formed when this holds
  of its property store, of every namespace in it, and of its directives.
\<close>

definition wf_node :: "node \<Rightarrow> bool" where
  "wf_node n =
     (distinct (map fst (props n))
      \<and> list_all (\<lambda>e. distinct (map fst (snd e))) (props n)
      \<and> distinct (map fst (directives n)))"

text \<open>The entries of the namespace \<open>css\<close> of a node, none when it has no such namespace.\<close>

definition css_entries :: "node \<Rightarrow> (string \<times> string) list" where
  "css_entries n = (case getPropNS n ''css'' of None \<Rightarrow> [] | Some space \<Rightarrow> space)"

subsection \<open>A kebab-case conversion for concrete runs\<close>

text \<open>
  Modelled from the spec: \<open>Case.kebab\<close> is a function of the library \<open>case\<close>, which the
  source requires and does not contain. The specification describes it as the conversion
  to kebab-case, hyphen-separated lowercase. \<open>kebab_camel\<close> is that conversion on
  camel-case ASCII identifiers: every capital letter is lowered, and a capital letter
  after the first character starts a new word. It instantiates the parameter \<open>kebab\<close>
  where a theorem is run on concrete input.
\<close>

definition kebab_camel :: "string \<Rightarrow> string" where
  "kebab_camel s =
     (case s of
        [] \<Rightarrow> []
      | c # cs \<Rightarrow>
          toLowerCase_char c
          # concat (map (\<lambda>x. if toLowerCase_char x \<noteq> x
                               then [CHR ''-'', toLowerCase_char x] else [x]) cs))"

subsection \<open>Concrete nodes and heaps\<close>

text \<open>
  Concrete nodes and heaps for running the theorems. \<open>plain_node\<close> is the node a
  successful construction returns.
\<close>

definition plain_node :: "string \<Rightarrow> node" where
  "plain_node nm = projr (CombineNode nm)"

text \<open>A node on which \<open>setProp\<close> was called for \<open>(html, tag)\<close> and \<open>(css, color)\<close>.\<close>

definition styled_node :: "string \<Rightarrow> string \<Rightarrow> string \<Rightarrow> node" where
  "styled_node nm tag color =
     setProp ''css'' ''color'' color (setProp ''html'' ''tag'' tag (plain_node nm))"

text \<open>
  A heap with the node \<open>a\<close> at address 0, to which the nodes at the addresses 1 and 2
  were added as mixins in that order, \<open>b\<close> at address 1 and \<open>c\<close> everywhere else.
\<close>

definition three_nodes :: "node \<Rightarrow> node \<Rightarrow> node \<Rightarrow> heap" where
  "three_nodes a b c = (\<lambda>_. c)(0 := addMixin 2 (addMixin 1 a), 1 := b)"

text \<open>
  The round-trip scenario of the specification: the node \<open>b\<close> at address 0 gets the
  properties \<open>(html, tag) = button\<close> and \<open>(css, backgroundColor) = red\<close> and the mixin
  at address 1, where \<open>d\<close> is.
\<close>

definition Button_scenario :: "node \<Rightarrow> node \<Rightarrow> heap" where
  "Button_scenario b d =
     (\<lambda>_. d)(0 := addMixin 1 (setProp ''css'' ''backgroundColor'' ''red''
                                  (setProp ''html'' ''tag'' ''button'' b)))"

section \<open>Lemmas\<close>

subsection \<open>Objects\<close>

lemma map_of_js_set: "map_of (js_set k v ob) = (map_of ob)(k \<mapsto> v)"
  by (induction ob) (auto simp: fun_eq_iff)

lemma keys_js_set:
  "map fst (js_set k v ob) = (if k \<in> set (map fst ob) then map fst ob else map fst ob @ [k])"
  by (induction ob) (auto simp: image_iff, force+)

lemma distinct_js_set: "distinct (map fst ob) \<Longrightarrow> distinct (map fst (js_set k v ob))"
  by (simp add: keys_js_set)


lemma hasOwnProperty_iff: "hasOwnProperty ob k = (js_get ob k \<noteq> None)"
  by (simp add: hasOwnProperty_def js_get_def map_of_eq_None_iff)






lemma distinct_assign_entries:
  "distinct (map fst t) \<Longrightarrow> distinct (map fst (assign_entries t es))"
  by (induction t es rule: assign_entries.induct) (auto simp: distinct_js_set)



subsection \<open>Properties and the two loops\<close>

















subsection \<open>Construction and method calls\<close>

lemma classification_call:
  "classification (snd (call kebab h this m) a) = classification (h a)"
  by (cases m)
    (simp_all add: classification_def addChild_def setChilds_def addMixin_def
      addDirective_def setProp_def Let_def)

lemma classification_calls:
  "classification (calls kebab h cs a) = classification (h a)"
  by (induction cs arbitrary: h) (auto simp: classification_call)

lemma CombineNode_Inr:
  "nm \<noteq> [] \<Longrightarrow> \<exists>n. CombineNode nm = Inr n"
  by (cases nm) (simp_all add: CombineNode_def Let_def)

lemma CombineNode_fields:
  assumes "CombineNode nm = Inr n"
  shows "name n = nm" and "isElement n = (\<not> isBlock n)"
    and "blockName n = (if isBlock n then nm else [])"
    and "elementName n = (if isElement n then nm else [])"
    and "props n = []" and "content n = []" and "mixins n = []" and "directives n = []"
  using assms by (cases nm; auto simp: CombineNode_def Let_def)+

lemma js_get_js_set: "js_get (js_set k v ob) k' = (if k' = k then Some v else js_get ob k')"
  by (simp add: js_get_def map_of_js_set)






subsection \<open>Well-formed nodes\<close>

text \<open>
  The constructor makes a well-formed node, and every method call keeps all nodes of the
  heap well formed.
\<close>

lemma list_all_js_set:
  "list_all P ob \<Longrightarrow> P (k, v) \<Longrightarrow> list_all P (js_set k v ob)"
  by (induction ob) auto

lemma wf_node_CombineNode: "CombineNode nm = Inr n \<Longrightarrow> wf_node n"
  by (cases nm) (auto simp: CombineNode_def Let_def wf_node_def)

lemma wf_node_setProp:
  assumes "wf_node n"
  shows "wf_node (setProp ns nm v n)"
proof -
  let ?p1 = "if \<not> hasPropNS n ns then js_set ns [] (props n) else props n"
  let ?space = "case js_get ?p1 ns of None \<Rightarrow> [] | Some s \<Rightarrow> s"
  from assms have d: "distinct (map fst ?p1)"
    by (simp add: wf_node_def distinct_js_set)
  from assms have a: "list_all (\<lambda>e. distinct (map fst (snd e))) ?p1"
    by (simp add: wf_node_def list_all_js_set)
  have "distinct (map fst ?space)"
  proof (cases "js_get ?p1 ns")
    case None
    then show ?thesis by simp
  next
    case (Some s)
    then have "(ns, s) \<in> set ?p1"
      unfolding js_get_def by (rule map_of_SomeD)
    with a have "distinct (map fst s)" by (auto simp: list_all_iff)
    with Some show ?thesis by simp
  qed
  then have "distinct (map fst (js_set nm v ?space))" by (rule distinct_js_set)
  with a have "list_all (\<lambda>e. distinct (map fst (snd e))) (js_set ns (js_set nm v ?space) ?p1)"
    by (intro list_all_js_set) simp_all
  moreover have "distinct (map fst (js_set ns (js_set nm v ?space) ?p1))"
    using d by (rule distinct_js_set)
  moreover have "distinct (map fst (directives n))"
    using assms by (simp add: wf_node_def)
  ultimately show ?thesis
    by (simp add: wf_node_def setProp_def Let_def)
qed

lemma wf_node_call:
  assumes "\<forall>a. wf_node (h a)"
  shows "wf_node (snd (call kebab h this m) a)"
proof (cases m)
  case (SetProp ns nm v)
  with assms show ?thesis by (simp add: wf_node_setProp)
next
  case (AddDirective nm d)
  with assms show ?thesis
    by (auto simp: wf_node_def addDirective_def distinct_js_set)
qed (insert assms, simp_all add: wf_node_def addChild_def setChilds_def addMixin_def)

lemma wf_node_calls:
  "\<forall>a. wf_node (h a) \<Longrightarrow> wf_node (calls kebab h cs a)"
proof (induction cs arbitrary: h)
  case Nil
  then show ?case by simp
next
  case (Cons c cs)
  obtain t m where c: "c = (t, m)" by (cases c)
  have "\<forall>a. wf_node (snd (call kebab h t m) a)"
    using Cons.prems by (simp add: wf_node_call)
  then show ?case
    using Cons.IH [of "snd (call kebab h t m)"] by (simp add: c)
qed

subsection \<open>The attribute string\<close>

text \<open>
  \<open>_getAttributesString\<close> in closed form: the class and the css rules, each left out when
  empty, in this order, joined by one space.
\<close>

lemma getAttributesString_eq:
  "getAttributesString kebab h this =
     join '' ''
       ((if getHtmlMixedClass kebab h this \<noteq> []
         then [''class=\"'' @ getHtmlMixedClass kebab h this @ ''\"''] else [])
        @ (if getCssMixedRules kebab h this \<noteq> []
           then [''styles=\"'' @ getCssMixedRules kebab h this @ ''\"''] else []))"
  by (simp add: getAttributesString_def Let_def Object_keys_def own_entries_def
      is_array_index_def is_digit_def js_get_def)

subsection \<open>Merging a namespace that is already merged\<close>




subsection \<open>Evaluation of concrete runs\<close>

lemmas node_defs =
  CombineNode_def toLowerCase_def toLowerCase_char_def plain_node_def styled_node_def
  three_nodes_def Button_scenario_def addMixin_def setProp_def hasPropNS_def getPropNS_def
  hasProp_def getProp_def hasOwnProperty_def js_get_def getMixines_def wf_node_def
  css_entries_def

lemmas render_defs =
  getAllMixedNodes_def getHtmlTag_def mixedRules_of_def cssRule_strings_def
  getCssMixedRules_def getHtmlClass_def getHtmlMixedClass_def getAttributesString_def
  getHtmlTagStart_def getHtmlTagEnd_def Object_assign_def Object_keys_def own_entries_def
  is_array_index_def is_digit_def kebab_camel_def

lemma kebab_camel_values:
  "kebab_camel ''Button'' = ''button''" "kebab_camel ''disabled'' = ''disabled''"
  "kebab_camel ''backgroundColor'' = ''background-color''" "kebab_camel [] = []"
  "kebab_camel ''color'' = ''color''"
  by (simp_all add: kebab_camel_def toLowerCase_char_def)

lemma setProp_space:
  "js_get (if \<not> hasPropNS n ns then js_set ns [] (props n) else props n) ns \<noteq> None"
  by (simp add: js_get_js_set hasPropNS_def hasOwnProperty_iff)

section \<open>The claims\<close>

subsection \<open>C1: the attribute string\<close>

text \<open>
  Claim C1 says that the attribute string is built from the keys \<open>class\<close> and
  \<open>style\<close>. The source writes the second key as \<open>styles\<close>, so a node with css rules
  renders an attribute \<open>styles="..."\<close>, which is not the inline-style attribute of HTML. On
  the round-trip scenario of the specification (block \<open>Button\<close> with
  \<open>(html, tag) = button\<close> and \<open>(css, backgroundColor) = red\<close>, mixin \<open>disabled\<close>)
  \<open>_getAttributesString\<close> returns the string below, where the claim expects
  \<open>class="button __disabled" style="background-color:red"\<close>.
\<close>

theorem getAttributesString_styles_key:
  "getAttributesString kebab_camel
     (Button_scenario (plain_node ''Button'') (plain_node ''disabled'')) 0
   = ''class=\"button __disabled\" styles=\"background-color:red\"''"
  by (simp add: node_defs render_defs)

subsection \<open>C2: mixin priority\<close>



subsection \<open>C3: the round-trip scenario\<close>

text \<open>
  Claim C3: for the block \<open>Button\<close> with \<open>(html, tag) = button\<close> and
  \<open>(css, backgroundColor) = red\<close> and the mixin element \<open>disabled\<close> without properties,
  \<open>getHtmlTag\<close> returns \<open>button\<close>, \<open>getHtmlMixedClass\<close> returns \<open>button __disabled\<close> and
  \<open>getCssMixedRules\<close> returns \<open>background-color:red\<close>. The library function \<open>kebab\<close> is
  any function that maps the three names of the scenario and the empty string as
  kebab-case does.
\<close>

theorem Button_round_trip:
  assumes "kebab ''Button'' = ''button''" and "kebab ''disabled'' = ''disabled''"
    and "kebab ''backgroundColor'' = ''background-color''" and "kebab [] = []"
  shows "\<exists>b d. CombineNode ''Button'' = Inr b \<and> CombineNode ''disabled'' = Inr d
     \<and> getHtmlTag (Button_scenario b d) 0 = Inr (Str ''button'')
     \<and> getHtmlMixedClass kebab (Button_scenario b d) 0 = ''button __disabled''
     \<and> getCssMixedRules kebab (Button_scenario b d) 0 = ''background-color:red''"
proof -
  obtain b where b: "CombineNode ''Button'' = Inr b" and bb: "b = plain_node ''Button''"
    by (simp add: node_defs)
  obtain d where d: "CombineNode ''disabled'' = Inr d" and dd: "d = plain_node ''disabled''"
    by (simp add: node_defs)
  have "getHtmlTag (Button_scenario b d) 0 = Inr (Str ''button'')"
    unfolding bb dd by (simp add: node_defs render_defs)
  moreover have "getHtmlMixedClass kebab (Button_scenario b d) 0 = ''button __disabled''"
    unfolding bb dd using assms(1,2,4) by (simp add: node_defs render_defs)
  moreover have "getCssMixedRules kebab (Button_scenario b d) 0 = ''background-color:red''"
    unfolding bb dd using assms(3) by (simp add: node_defs render_defs)
  ultimately show ?thesis using b d by blast
qed

text \<open>
The scenario run with \<open>kebab_camel\<close>.
\<close>

theorem Button_round_trip_witness:
  "getHtmlTag (Button_scenario (plain_node ''Button'') (plain_node ''disabled'')) 0
     = Inr (Str ''button'')
   \<and> getHtmlMixedClass kebab_camel
        (Button_scenario (plain_node ''Button'') (plain_node ''disabled'')) 0
     = ''button __disabled''
   \<and> getCssMixedRules kebab_camel
        (Button_scenario (plain_node ''Button'') (plain_node ''disabled'')) 0
     = ''background-color:red''"
  using Button_round_trip [of kebab_camel, OF kebab_camel_values(1,2,3,4)]
  by (auto simp: plain_node_def)

subsection \<open>C4: classification\<close>

text \<open>
  Claim C4: the constructor succeeds on every non-empty name; of \<open>isBlock\<close> and
  \<open>isElement\<close> exactly one holds; a block has the name as its \<open>blockName\<close> and an empty
  \<open>elementName\<close>, an element the converse; and no sequence of method calls, on this node
  or on any other, changes the name or the classification of the node.
\<close>

theorem classification_invariant:
  assumes "nm \<noteq> []"
  shows "\<exists>n. CombineNode nm = Inr n
     \<and> isBlock n \<noteq> isElement n
     \<and> (isBlock n \<longrightarrow> blockName n = nm \<and> elementName n = [])
     \<and> (isElement n \<longrightarrow> elementName n = nm \<and> blockName n = [])
     \<and> (\<forall>kebab h this cs. h this = n
           \<longrightarrow> classification (calls kebab h cs this) = classification n)"
proof -
  from assms obtain n where n: "CombineNode nm = Inr n"
    using CombineNode_Inr by blast
  note f = CombineNode_fields [OF n]
  have "isBlock n \<noteq> isElement n" using f(2) by simp
  moreover have "isBlock n \<longrightarrow> blockName n = nm \<and> elementName n = []"
    using f(2,3,4) by simp
  moreover have "isElement n \<longrightarrow> elementName n = nm \<and> blockName n = []"
    using f(2,3,4) by simp
  moreover have "\<forall>kebab h this cs. h this = n
           \<longrightarrow> classification (calls kebab h cs this) = classification n"
    by (auto simp: classification_calls)
  ultimately show ?thesis using n by blast
qed

text \<open>
The theorem at the name \<open>Button\<close> and three calls on the new node.
\<close>

theorem classification_invariant_witness:
  "CombineNode ''Button'' = Inr (plain_node ''Button'')
   \<and> isBlock (plain_node ''Button'') \<and> \<not> isElement (plain_node ''Button'')
   \<and> blockName (plain_node ''Button'') = ''Button''
   \<and> elementName (plain_node ''Button'') = []
   \<and> classification (calls kebab_camel (\<lambda>_. plain_node ''Button'')
         [(0, SetProp ''html'' ''tag'' ''button''), (0, AddMixin 1), (0, GetHtmlTagStart)] 0)
       = classification (plain_node ''Button'')"
proof -
  have "''Button'' \<noteq> []" by simp
  from classification_invariant [OF this]
  obtain n where N: "CombineNode ''Button'' = Inr n
     \<and> isBlock n \<noteq> isElement n
     \<and> (isBlock n \<longrightarrow> blockName n = ''Button'' \<and> elementName n = [])
     \<and> (isElement n \<longrightarrow> elementName n = ''Button'' \<and> blockName n = [])
     \<and> (\<forall>kebab h this cs. h this = n
           \<longrightarrow> classification (calls kebab h cs this) = classification n)" ..
  from N have n: "CombineNode ''Button'' = Inr n" by (rule conjunct1)
  have e: "n = plain_node ''Button''" using n by (simp add: plain_node_def)
  have i: "isBlock (plain_node ''Button'')"
    by (simp add: plain_node_def CombineNode_def toLowerCase_def toLowerCase_char_def)
  from N have x: "isBlock n \<noteq> isElement n" by simp
  from N have b: "isBlock n \<longrightarrow> blockName n = ''Button'' \<and> elementName n = []" by simp
  from N have l: "\<forall>kebab h this cs. h this = n
           \<longrightarrow> classification (calls kebab h cs this) = classification n" by simp
  have c: "classification (calls kebab_camel (\<lambda>_. n)
         [(0, SetProp ''html'' ''tag'' ''button''), (0, AddMixin 1), (0, GetHtmlTagStart)] 0)
       = classification n"
    by (rule l [THEN spec, THEN spec, THEN spec, THEN spec, THEN mp]) (rule refl)
  from n x b i c show ?thesis unfolding e by simp
qed

subsection \<open>C5: the tag\<close>



subsection \<open>C6: merging the same css namespace twice\<close>




subsection \<open>C7: the class of a single node\<close>

text \<open>
  Claim C7: for a node made by the constructor from the name \<open>nm\<close>, after any sequence of
  method calls, \<open>getHtmlClass\<close> returns \<open>kebab nm\<close> when the node is a block and
  \<open>__\<close> followed by \<open>kebab nm\<close> when it is an element, whose block name is empty; the node
  is never both. The library function \<open>kebab\<close> maps the empty string to itself.
\<close>

theorem getHtmlClass_block_or_element:
  assumes "CombineNode nm = Inr (h this)" and "kebab [] = []"
  shows "let n = calls kebab h cs this in
           isBlock n \<noteq> isElement n
         \<and> (isBlock n \<longrightarrow> blockName n = nm \<and> getHtmlClass kebab n = kebab nm)
         \<and> (isElement n \<longrightarrow> blockName n = [] \<and> elementName n = nm
               \<and> getHtmlClass kebab n = ''__'' @ kebab nm)"
proof -
  note f = CombineNode_fields [OF assms(1)]
  have "classification (calls kebab h cs this) = classification (h this)"
    by (rule classification_calls)
  then have e: "blockName (calls kebab h cs this) = blockName (h this)"
    "elementName (calls kebab h cs this) = elementName (h this)"
    "isBlock (calls kebab h cs this) = isBlock (h this)"
    "isElement (calls kebab h cs this) = isElement (h this)"
    by (simp_all add: classification_def)
  show ?thesis
    using f(2,3,4) assms(2) by (simp add: Let_def e getHtmlClass_def)
qed

text \<open>
The theorem at the block \<open>Button\<close> and at the element \<open>disabled\<close>.
\<close>

theorem getHtmlClass_block_or_element_witness:
  "getHtmlClass kebab_camel
     (calls kebab_camel (\<lambda>_. plain_node ''Button'') [(0, AddMixin 1)] 0) = ''button''
   \<and> getHtmlClass kebab_camel
     (calls kebab_camel (\<lambda>_. plain_node ''disabled'') [(0, SetProp ''css'' ''color'' ''red'')] 0)
     = ''__disabled''"
proof -
  let ?hb = "\<lambda>_::nat. plain_node ''Button''"
  let ?hd = "\<lambda>_::nat. plain_node ''disabled''"
  have b: "CombineNode ''Button'' = Inr (?hb 0)"
    and d: "CombineNode ''disabled'' = Inr (?hd 0)"
    by (simp_all add: node_defs)
  have cb: "isBlock (calls kebab_camel ?hb [(0, AddMixin 1)] 0)"
    and cd: "isElement (calls kebab_camel ?hd [(0, SetProp ''css'' ''color'' ''red'')] 0)"
    by (simp_all add: node_defs Let_def)
  note rb = getHtmlClass_block_or_element [where h = ?hb and this = 0 and nm = "''Button''"
      and kebab = kebab_camel and cs = "[(0, AddMixin 1)]", OF b kebab_camel_values(4)]
  note rd = getHtmlClass_block_or_element [where h = ?hd and this = 0 and nm = "''disabled''"
      and kebab = kebab_camel and cs = "[(0, SetProp ''css'' ''color'' ''red'')]",
      OF d kebab_camel_values(4)]
  from rb cb have "getHtmlClass kebab_camel (calls kebab_camel ?hb [(0, AddMixin 1)] 0)
      = kebab_camel ''Button''"
    by (simp only: Let_def)
  moreover from rd cd have "getHtmlClass kebab_camel
      (calls kebab_camel ?hd [(0, SetProp ''css'' ''color'' ''red'')] 0)
      = ''__'' @ kebab_camel ''disabled''"
    by (simp only: Let_def)
  ultimately show ?thesis by (simp only: kebab_camel_values) simp
qed

subsection \<open>C8: reading properties\<close>



subsection \<open>C9: the opening and the closing tag\<close>



subsection \<open>C10: rendering does not write\<close>



end
